theory Spec2Isabelle
  imports Complex_Main
begin

section \<open>The MNIST training script (examples/mnist/train.py)\<close>

text \<open>
  The script is glue around an array and automatic-differentiation framework. The
  embedding keeps the script's own logic (batching, sharding, the training step, the
  epoch loop, the metric reductions, logging, the raised errors) and takes what the
  framework supplies (the network's forward pass, differentiation, the optimizer's
  update rule, the random generators) as the fields of a record \<open>framework\<close>.

  Arrays are lists along their leading axis; a float is a \<open>real\<close>, so rounding and the
  IEEE special values are outside the model. The numeric functions are read on
  well-shaped arrays (as many label entries as logits rows, \<open>num_classes\<close> columns per
  row); the theorems state the shape facts they need.
\<close>

subsection \<open>Errors, flags, data\<close>

datatype error =
    ValueError string
  | ZeroDivisionError
  | IndexError
  | SyntaxError nat
  | NameError string nat

text \<open>The four command-line flags (lines 42--56).\<close>

record flags =
  flag_learning_rate :: real
  flag_momentum :: real
  flag_batch_size :: int
  flag_num_epochs :: int

text \<open>
  A split of the dataset is a dictionary with the keys \<open>image\<close> and \<open>label\<close>, each an
  array whose leading axis ranges over the examples. A sharded batch has a device axis in
  front of the example axis.
\<close>

record 'x dataset =
  ds_image :: "'x list"
  ds_label :: "int list"

record 'x sharded =
  sh_image :: "'x list list"
  sh_label :: "int list list"

text \<open>The metrics dictionary of \<open>compute_metrics\<close>, keys \<open>loss\<close> and \<open>accuracy\<close>.\<close>

record metrics =
  loss :: real
  accuracy :: real

text \<open>What \<open>logging.info\<close> receives: the phase, the epoch, the loss and the accuracy times 100.\<close>

datatype log_entry =
    TrainLog int real real
  | EvalLog int real real



subsection \<open>The framework's operations\<close>

text \<open>
  \<^item> \<open>PRNGKey\<close>, \<open>init_by_shape\<close>: \<open>random.PRNGKey\<close> and the parameters that
    \<open>CNN.init_by_shape\<close> draws from a key (wrapped by \<open>nn.Model\<close>);
  \<^item> \<open>model_apply\<close>: the forward pass \<open>model(images)\<close> of the CNN, one row of
    log-probabilities per image;
  \<^item> \<open>grad\<close>: differentiation of a scalar function of the parameters at a point;
  \<^item> \<open>momentum_create\<close>, \<open>target\<close>, \<open>apply_gradient\<close>: \<open>optim.Momentum(lr, beta).create\<close>,
    the optimizer's current parameters and its update;
  \<^item> \<open>RandomState\<close>, \<open>permutation\<close>: numpy's seeded generator; drawing a permutation
    advances the generator.
\<close>

record ('k, 'p, 'x, 'o, 'r) framework =
  PRNGKey :: "int \<Rightarrow> 'k"
  init_by_shape :: "'k \<Rightarrow> 'p"
  model_apply :: "'p \<Rightarrow> 'x list \<Rightarrow> real list list"
  grad :: "('p \<Rightarrow> real) \<Rightarrow> 'p \<Rightarrow> 'p"
  momentum_create :: "real \<Rightarrow> real \<Rightarrow> 'p \<Rightarrow> 'o"
  target :: "'o \<Rightarrow> 'p"
  apply_gradient :: "'o \<Rightarrow> 'p \<Rightarrow> 'o"
  RandomState :: "int \<Rightarrow> 'r"
  permutation :: "'r \<Rightarrow> nat \<Rightarrow> nat list \<times> 'r"

text \<open>\<open>jax.value_and_grad(f, has_aux=True)\<close>: \<open>f\<close> returns a pair of the value to
  differentiate and auxiliary data; the result pairs \<open>f x\<close> with the gradient of the value.\<close>

definition value_and_grad ::
  "('k, 'p, 'x, 'o, 'r) framework \<Rightarrow> ('p \<Rightarrow> real \<times> 'a) \<Rightarrow> 'p \<Rightarrow> (real \<times> 'a) \<times> 'p" where
  "value_and_grad F f x = (f x, grad F (\<lambda>m. fst (f m)) x)"

subsection \<open>Model and optimizer creation (lines 84--94)\<close>

definition create_model :: "('k, 'p, 'x, 'o, 'r) framework \<Rightarrow> 'k \<Rightarrow> 'p" where
  "create_model F key = init_by_shape F key"

text \<open>\<open>optimizer.replicate()\<close> stacks one copy of the optimizer per device.\<close>

definition create_optimizer ::
  "('k, 'p, 'x, 'o, 'r) framework \<Rightarrow> nat \<Rightarrow> 'p \<Rightarrow> real \<Rightarrow> real \<Rightarrow> 'o list" where
  "create_optimizer F device_count model lr beta =
     (let optimizer = momentum_create F lr beta model
      in replicate device_count optimizer)"

subsection \<open>Loss and metrics (lines 97--129)\<close>

text \<open>The mean of an empty array is NaN in the source; the model's quotient is then
  \<open>0 / 0\<close>, and no statement below depends on its value.\<close>

definition jnp_mean :: "real list \<Rightarrow> real" where
  "jnp_mean xs = sum_list xs / real (length xs)"

definition onehot :: "int list \<Rightarrow> nat \<Rightarrow> real list list" where
  "onehot labels num_classes =
     map (\<lambda>l. map (\<lambda>c. if l = int c then 1 else 0) [0..<num_classes]) labels"

definition cross_entropy_loss :: "real list list \<Rightarrow> int list \<Rightarrow> real" where
  "cross_entropy_loss logits labels =
     - jnp_mean (map sum_list (map2 (map2 (*)) (onehot labels 10) logits))"

text \<open>\<open>jnp.argmax\<close> along a row: the first index that holds the row's maximum. An empty
  row, on which the source raises, is outside the function's domain.\<close>

fun argmax_from :: "nat \<Rightarrow> real \<Rightarrow> nat \<Rightarrow> real list \<Rightarrow> nat" where
  "argmax_from best bv i [] = best"
| "argmax_from best bv i (x # xs) =
     (if bv < x then argmax_from i x (Suc i) xs else argmax_from best bv (Suc i) xs)"

fun argmax :: "real list \<Rightarrow> nat" where
  "argmax (x # xs) = argmax_from 0 x 1 xs"

text \<open>
  Under \<open>pmap\<close> every device runs the same function on its own slice, and a collective
  such as \<open>lax.psum\<close> combines the devices' values. A value inside the mapped function
  is modelled by the list of its per-device values: \<open>psum\<close> gives every device the sum.
\<close>

definition psum :: "real list \<Rightarrow> real list" where
  "psum xs = map (\<lambda>_. sum_list xs) xs"

definition pmean_leaf :: "nat \<Rightarrow> real list \<Rightarrow> real list" where
  "pmean_leaf device_count xs = map (\<lambda>s. s / real device_count) (psum xs)"

text \<open>\<open>pmean\<close> maps the leaf function over the two leaves of the metrics dictionary.\<close>

definition pmean :: "nat \<Rightarrow> metrics list \<Rightarrow> metrics list" where
  "pmean device_count tree =
     map2 (\<lambda>l a. \<lparr>loss = l, accuracy = a\<rparr>)
       (pmean_leaf device_count (map loss tree))
       (pmean_leaf device_count (map accuracy tree))"

text \<open>
  \<open>compute_metrics\<close> first computes the loss and the accuracy of one device's logits
  (lines 121--126); with \<open>sharded\<close> set it then reduces them over the devices.
  \<open>compute_metrics_local\<close> is the function with \<open>sharded=False\<close>, and the devices' part
  of it with \<open>sharded=True\<close>; \<open>compute_metrics_sharded\<close> is the whole of the latter.
\<close>

definition compute_metrics_local :: "real list list \<Rightarrow> int list \<Rightarrow> metrics" where
  "compute_metrics_local logits labels =
     \<lparr>loss = cross_entropy_loss logits labels,
      accuracy = jnp_mean (map2 (\<lambda>row l. if int (argmax row) = l then 1 else 0) logits labels)\<rparr>"

definition compute_metrics_sharded ::
  "nat \<Rightarrow> real list list list \<Rightarrow> int list list \<Rightarrow> metrics list" where
  "compute_metrics_sharded device_count logits labels =
     pmean device_count (map2 compute_metrics_local logits labels)"

subsection \<open>Sharding (lines 106--112)\<close>

text \<open>
  \<open>x.reshape((device_count, -1) + x.shape[1:])\<close> on an array with \<open>n\<close> rows: numpy
  raises ValueError unless \<open>device_count\<close> is positive and divides \<open>n\<close>; otherwise row
  \<open>d\<close> of the result holds the rows \<open>d * (n / device_count)\<close> onwards of \<open>x\<close>.
\<close>

definition rows_of :: "nat \<Rightarrow> nat \<Rightarrow> 'a list \<Rightarrow> 'a list list" where
  "rows_of k width xs = map (\<lambda>i. take width (drop (i * width) xs)) [0..<k]"

definition reshape_leading :: "nat \<Rightarrow> 'a list \<Rightarrow> error + 'a list list" where
  "reshape_leading device_count xs =
     (if device_count = 0 \<or> length xs mod device_count \<noteq> 0
      then Inl (ValueError ''cannot reshape array'')
      else Inr (rows_of device_count (length xs div device_count) xs))"

definition shard :: "nat \<Rightarrow> 'x dataset \<Rightarrow> error + 'x sharded" where
  "shard device_count xs =
     (case reshape_leading device_count (ds_image xs) of
        Inl e \<Rightarrow> Inl e
      | Inr im \<Rightarrow>
          (case reshape_leading device_count (ds_label xs) of
             Inl e \<Rightarrow> Inl e
           | Inr lb \<Rightarrow> Inr \<lparr>sh_image = im, sh_label = lb\<rparr>))"

text \<open>\<open>device_get_first\<close> takes index 0 along the device axis: IndexError on an empty axis.\<close>

definition device_get_first :: "'a list \<Rightarrow> error + 'a" where
  "device_get_first xs = (case xs of [] \<Rightarrow> Inl IndexError | x # _ \<Rightarrow> Inr x)"

subsection \<open>The training and evaluation steps (lines 132--149)\<close>

definition loss_fn ::
  "('k, 'p, 'x, 'o, 'r) framework \<Rightarrow> 'x dataset \<Rightarrow> 'p \<Rightarrow> real \<times> real list list" where
  "loss_fn F batch model =
     (let logits = model_apply F model (ds_image batch);
          loss = cross_entropy_loss logits (ds_label batch)
      in (loss, logits))"

text \<open>
  One device's part of \<open>train_step\<close>, up to the collective inside \<open>compute_metrics\<close>:
  the new optimizer and the logits of the forward pass.
\<close>

definition train_step_device ::
  "('k, 'p, 'x, 'o, 'r) framework \<Rightarrow> 'o \<Rightarrow> 'x dataset \<Rightarrow> 'o \<times> real list list" where
  "train_step_device F optimizer batch =
     (let grad_fn = value_and_grad F (loss_fn F batch);
          ((_, logits), grad) = grad_fn (target F optimizer);
          optimizer = apply_gradient F optimizer grad
      in (optimizer, logits))"

text \<open>
  \<open>pmap\<close> splits every argument along its leading axis and raises ValueError when
  the axes differ in size or are longer than the number of devices. The slices of a
  sharded batch are the devices' batches.
\<close>

definition device_batches :: "'x sharded \<Rightarrow> 'x dataset list" where
  "device_batches batch =
     map2 (\<lambda>im lb. \<lparr>ds_image = im, ds_label = lb\<rparr>) (sh_image batch) (sh_label batch)"

definition train_step ::
  "('k, 'p, 'x, 'o, 'r) framework \<Rightarrow> nat \<Rightarrow> 'o list \<Rightarrow> 'x sharded
     \<Rightarrow> error + ('o list \<times> metrics list)" where
  "train_step F device_count optimizer batch =
     (if length (sh_image batch) \<noteq> length optimizer
         \<or> length (sh_label batch) \<noteq> length optimizer
         \<or> device_count < length optimizer
      then Inl (ValueError ''pmap got inconsistent sizes for array axes to be mapped'')
      else
        (let per_device = map2 (train_step_device F) optimizer (device_batches batch);
             metrics = compute_metrics_sharded device_count
                         (map snd per_device) (sh_label batch)
         in Inr (map fst per_device, metrics)))"

definition eval_step ::
  "('k, 'p, 'x, 'o, 'r) framework \<Rightarrow> 'p \<Rightarrow> 'x dataset \<Rightarrow> metrics" where
  "eval_step F model batch =
     (let logits = model_apply F model (ds_image batch)
      in compute_metrics_local logits (ds_label batch))"

definition eval_model ::
  "('k, 'p, 'x, 'o, 'r) framework \<Rightarrow> 'p \<Rightarrow> 'x dataset \<Rightarrow> real \<times> real" where
  "eval_model F model test_ds =
     (let summary = eval_step F model test_ds
      in (loss summary, accuracy summary))"

subsection \<open>One epoch (lines 152--180)\<close>

definition onp_mean :: "real list \<Rightarrow> real" where
  "onp_mean xs = sum_list xs / real (length xs)"

text \<open>
  \<open>perms.reshape((steps_per_epoch, batch_size))\<close> on a one-dimensional array, by numpy's
  rule: a negative entry of the shape is the one dimension to infer; two of them, a size
  that does not match, or an inferred dimension next to a zero raise ValueError.
\<close>

definition reshape2 :: "int \<Rightarrow> int \<Rightarrow> 'a list \<Rightarrow> error + 'a list list" where
  "reshape2 r c xs =
     (if 0 \<le> r \<and> 0 \<le> c then
        (if int (length xs) = r * c then Inr (rows_of (nat r) (nat c) xs)
         else Inl (ValueError ''cannot reshape array''))
      else if r < 0 \<and> c < 0 then Inl (ValueError ''can only specify one unknown dimension'')
      else if c < 0 then
        (if r = 0 \<or> int (length xs) mod r \<noteq> 0 then Inl (ValueError ''cannot reshape array'')
         else Inr (rows_of (nat r) (length xs div nat r) xs))
      else
        (if c = 0 \<or> int (length xs) mod c \<noteq> 0 then Inl (ValueError ''cannot reshape array'')
         else Inr (rows_of (length xs div nat c) (nat c) xs)))"

text \<open>\<open>v[perm]\<close> with an array of indices: IndexError when an index is out of range.\<close>

definition take_rows :: "'a list \<Rightarrow> nat list \<Rightarrow> error + 'a list" where
  "take_rows v perm =
     (if list_all (\<lambda>i. i < length v) perm then Inr (map (\<lambda>i. v ! i) perm)
      else Inl IndexError)"

definition select_batch :: "'x dataset \<Rightarrow> nat list \<Rightarrow> error + 'x dataset" where
  "select_batch train_ds perm =
     (case take_rows (ds_image train_ds) perm of
        Inl e \<Rightarrow> Inl e
      | Inr im \<Rightarrow>
          (case take_rows (ds_label train_ds) perm of
             Inl e \<Rightarrow> Inl e
           | Inr lb \<Rightarrow> Inr \<lparr>ds_image = im, ds_label = lb\<rparr>))"

text \<open>The batch that line 167 builds for one row of the permutation matrix.\<close>

definition make_batch :: "nat \<Rightarrow> 'x dataset \<Rightarrow> nat list \<Rightarrow> error + 'x sharded" where
  "make_batch device_count train_ds perm =
     (case select_batch train_ds perm of
        Inl e \<Rightarrow> Inl e
      | Inr b \<Rightarrow> shard device_count b)"

text \<open>The loop of lines 166--169: the optimizer is threaded, the metrics are appended.\<close>

fun epoch_loop ::
  "('k, 'p, 'x, 'o, 'r) framework \<Rightarrow> nat \<Rightarrow> 'x dataset \<Rightarrow> nat list list \<Rightarrow> 'o list
     \<Rightarrow> metrics list list \<Rightarrow> error + ('o list \<times> metrics list list)" where
  "epoch_loop F device_count train_ds [] optimizer batch_metrics =
     Inr (optimizer, batch_metrics)"
| "epoch_loop F device_count train_ds (perm # perms) optimizer batch_metrics =
     (case make_batch device_count train_ds perm of
        Inl e \<Rightarrow> Inl e
      | Inr batch \<Rightarrow>
          (case train_step F device_count optimizer batch of
             Inl e \<Rightarrow> Inl e
           | Inr (optimizer', metrics) \<Rightarrow>
               epoch_loop F device_count train_ds perms optimizer'
                 (batch_metrics @ [metrics])))"

text \<open>
  Lines 159--164: the permutation of the example indices, cut to whole batches, one row
  per step. \<open>train_ds_size // batch_size\<close> raises ZeroDivisionError for a zero batch size.
\<close>

definition epoch_perms ::
  "('k, 'p, 'x, 'o, 'r) framework \<Rightarrow> 'x dataset \<Rightarrow> int \<Rightarrow> 'r
     \<Rightarrow> error + (nat list list \<times> 'r)" where
  "epoch_perms F train_ds batch_size rng =
     (let train_ds_size = int (length (ds_image train_ds))
      in if batch_size = 0 then Inl ZeroDivisionError
         else
           (let steps_per_epoch = train_ds_size div batch_size;
                (perms, rng') = permutation F rng (length (ds_image train_ds));
                perms = take (nat (steps_per_epoch * batch_size)) perms
            in case reshape2 steps_per_epoch batch_size perms of
                 Inl e \<Rightarrow> Inl e
               | Inr perms \<Rightarrow> Inr (perms, rng')))"

text \<open>
  Lines 171--175. Each step's metrics carry the device axis of \<open>pmap\<close>;
  \<open>onp.mean\<close> of the list of these arrays averages over steps and devices.
  \<open>batch_metrics_np[0]\<close> raises IndexError when no step ran.
\<close>

definition epoch_metrics :: "metrics list list \<Rightarrow> error + metrics" where
  "epoch_metrics batch_metrics_np =
     (case batch_metrics_np of
        [] \<Rightarrow> Inl IndexError
      | _ # _ \<Rightarrow>
          Inr \<lparr>loss = onp_mean (concat (map (map loss) batch_metrics_np)),
               accuracy = onp_mean (concat (map (map accuracy) batch_metrics_np))\<rparr>)"

text \<open>
  The state that \<open>train_epoch\<close> changes besides its results: the shuffling generator
  and the log. It logs once, as its last action, so a call that raises leaves the log as
  it was.
\<close>

type_synonym 'r world = "'r \<times> log_entry list"

definition batch_size_msg :: string where
  "batch_size_msg = ''Batch size must be divisible by the number of devices''"

definition train_epoch ::
  "('k, 'p, 'x, 'o, 'r) framework \<Rightarrow> nat \<Rightarrow> 'o list \<Rightarrow> 'x dataset \<Rightarrow> int \<Rightarrow> int
     \<Rightarrow> 'r world \<Rightarrow> error + (('o list \<times> metrics) \<times> 'r world)" where
  "train_epoch F device_count optimizer train_ds batch_size epoch w =
     (if device_count = 0 then Inl ZeroDivisionError
      else if batch_size mod int device_count > 0 then Inl (ValueError batch_size_msg)
      else
        (case epoch_perms F train_ds batch_size (fst w) of
           Inl e \<Rightarrow> Inl e
         | Inr (perms, rng') \<Rightarrow>
             (case epoch_loop F device_count train_ds perms optimizer [] of
                Inl e \<Rightarrow> Inl e
              | Inr (optimizer', batch_metrics) \<Rightarrow>
                  (case epoch_metrics batch_metrics of
                     Inl e \<Rightarrow> Inl e
                   | Inr epoch_metrics_np \<Rightarrow>
                       Inr ((optimizer', epoch_metrics_np),
                            (rng', snd w @ [TrainLog epoch (loss epoch_metrics_np)
                                              (accuracy epoch_metrics_np * 100)]))))))"

subsection \<open>The training run (lines 197--217)\<close>

text \<open>
  The result of a run is the final optimizer or the error that ended it, and the log
  written until then. An error of \<open>train_epoch\<close> or of \<open>device_get_first\<close> is not
  caught: it ends the run.
\<close>

fun train_loop ::
  "('k, 'p, 'x, 'o, 'r) framework \<Rightarrow> nat \<Rightarrow> 'x dataset \<Rightarrow> 'x dataset \<Rightarrow> int \<Rightarrow> int list
     \<Rightarrow> 'o list \<Rightarrow> 'r world \<Rightarrow> (error + 'o list) \<times> log_entry list" where
  "train_loop F device_count train_ds test_ds batch_size [] optimizer w =
     (Inr optimizer, snd w)"
| "train_loop F device_count train_ds test_ds batch_size (epoch # epochs) optimizer w =
     (case train_epoch F device_count optimizer train_ds batch_size epoch w of
        Inl e \<Rightarrow> (Inl e, snd w)
      | Inr ((optimizer', _), (rng', lg)) \<Rightarrow>
          (case device_get_first (map (target F) optimizer') of
             Inl e \<Rightarrow> (Inl e, lg)
           | Inr optimizer_target \<Rightarrow>
               (let (l, a) = eval_model F optimizer_target test_ds
                in train_loop F device_count train_ds test_ds batch_size epochs optimizer'
                     (rng', lg @ [EvalLog epoch l (a * 100)]))))"

definition train ::
  "('k, 'p, 'x, 'o, 'r) framework \<Rightarrow> nat \<Rightarrow> flags \<Rightarrow> 'x dataset \<Rightarrow> 'x dataset
     \<Rightarrow> (error + 'o list) \<times> log_entry list" where
  "train F device_count FLAGS train_ds test_ds =
     (let rng = PRNGKey F 0;
          batch_size = flag_batch_size FLAGS;
          num_epochs = flag_num_epochs FLAGS;
          model = create_model F rng;
          optimizer = create_optimizer F device_count model
                        (flag_learning_rate FLAGS) (flag_momentum FLAGS);
          input_rng = RandomState F 0
      in train_loop F device_count train_ds test_ds batch_size [1..num_epochs]
           optimizer (input_rng, []))"

subsection \<open>The module's top level (lines 22--226)\<close>

text \<open>
  What running the file does before \<open>main\<close> is called: Python compiles the whole file,
  and a statement that is not well formed is a SyntaxError before anything runs; then the
  top-level statements run in order, each binding a name or loading names, and loading
  a name that is neither bound nor built in is a NameError. A \<open>def\<close> or \<open>class\<close>
  loads, when it is executed, the names of its decorators and base classes; the names of
  its body are loaded when it is called. Every statement carries the line it starts at,
  and an error is reported with the line of its statement.
\<close>

datatype stmt =
    Import nat "string list"
  | FromImport nat string
  | Assign nat string "string list"
  | Expr nat "string list"
  | Def nat string "string list" "string list"

fun line_of :: "stmt \<Rightarrow> nat" where
  "line_of (Import n ms) = n"
| "line_of (FromImport n x) = n"
| "line_of (Assign n x ls) = n"
| "line_of (Expr n ls) = n"
| "line_of (Def n x ds bs) = n"

text \<open>\<open>import\<close> needs at least one module.\<close>

fun well_formed :: "stmt \<Rightarrow> bool" where
  "well_formed (Import n ms) = (ms \<noteq> [])"
| "well_formed s = True"

fun binds :: "stmt \<Rightarrow> string list" where
  "binds (Import n ms) = ms"
| "binds (FromImport n x) = [x]"
| "binds (Assign n x ls) = [x]"
| "binds (Expr n ls) = []"
| "binds (Def n x ds bs) = [x]"

fun loads_now :: "stmt \<Rightarrow> string list" where
  "loads_now (Assign n x ls) = ls"
| "loads_now (Expr n ls) = ls"
| "loads_now (Def n x ds bs) = ds"
| "loads_now s = []"

fun loads_all :: "stmt \<Rightarrow> string list" where
  "loads_all (Def n x ds bs) = ds @ bs"
| "loads_all s = loads_now s"

fun exec_module :: "string list \<Rightarrow> stmt list \<Rightarrow> error + string list" where
  "exec_module bound [] = Inr bound"
| "exec_module bound (s # prog) =
     (case find (\<lambda>x. x \<notin> set bound) (loads_now s) of
        Some x \<Rightarrow> Inl (NameError x (line_of s))
      | None \<Rightarrow> exec_module (bound @ binds s) prog)"

definition run_module :: "string list \<Rightarrow> stmt list \<Rightarrow> error + string list" where
  "run_module builtins prog =
     (case find (\<lambda>s. \<not> well_formed s) prog of
        Some s \<Rightarrow> Inl (SyntaxError (line_of s))
      | None \<Rightarrow> exec_module builtins prog)"

text \<open>The names that the file loads anywhere and that nothing binds.\<close>

definition unresolved :: "string list \<Rightarrow> stmt list \<Rightarrow> string list" where
  "unresolved builtins prog =
     remdups (filter (\<lambda>x. x \<notin> set (builtins @ concat (map binds prog)))
                (concat (map loads_all prog)))"

definition python_builtins :: "string list" where
  "python_builtins = [''__name__'', ''ValueError'', ''len'', ''range'']"

text \<open>
  The statements of the file. Line 29 is the word \<open>import\<close> alone; \<open>rest_of_file\<close> is
  everything after it.
\<close>

definition rest_of_file :: "stmt list" where
  "rest_of_file =
     [FromImport 30 ''lax'', FromImport 31 ''random'',
      Import 33 [''jnp''], Import 35 [''onp''], Import 37 [''tfds''],
      Assign 40 ''FLAGS'' [''flags''],
      Expr 42 [''flags''], Expr 46 [''flags''],
      Expr 50 [''flags'', ''jax''], Expr 54 [''flags''],
      Def 59 ''load_split'' [] [''tfds'', ''onp''],
      Def 66 ''CNN'' [''nn''] [''nn''],
      Def 84 ''create_model'' [] [''CNN'', ''jnp'', ''nn''],
      Def 90 ''create_optimizer'' [] [''optim''],
      Def 97 ''onehot'' [] [''jnp''],
      Def 102 ''cross_entropy_loss'' [] [''jnp'', ''onehot''],
      Def 106 ''shard'' [] [''jax''],
      Def 111 ''device_get_first'' [] [''jax''],
      Def 115 ''pmean'' [] [''jax'', ''lax''],
      Def 120 ''compute_metrics'' [] [''cross_entropy_loss'', ''jnp'', ''pmean''],
      Def 132 ''train_step'' [''functools'', ''jax'']
        [''cross_entropy_loss'', ''jax'', ''compute_metrics''],
      Def 146 ''eval_step'' [''jax''] [''compute_metrics''],
      Def 152 ''train_epoch'' []
        [''jax'', ''ValueError'', ''len'', ''shard'', ''train_step'', ''onp'', ''logging''],
      Def 183 ''eval_model'' [] [''eval_step'', ''jax''],
      Def 190 ''get_datasets'' [] [''load_split'', ''tfds''],
      Def 197 ''train'' []
        [''random'', ''FLAGS'', ''create_model'', ''create_optimizer'', ''onp'', ''range'',
         ''train_epoch'', ''device_get_first'', ''eval_model'', ''logging''],
      Def 220 ''main'' [] [''get_datasets'', ''train''],
      Expr 225 [''__name__'', ''app'', ''main'']]"

definition imports_before :: "stmt list" where
  "imports_before =
     [FromImport 22 ''app'', FromImport 23 ''flags'', FromImport 24 ''logging'',
      FromImport 26 ''nn'', FromImport 27 ''optim'']"

definition train_py :: "stmt list" where
  "train_py = imports_before @ [Import 29 []] @ rest_of_file"

subsection \<open>What the script relies on from the framework\<close>





subsection \<open>A small instance of the framework\<close>

text \<open>
  For running the definitions on concrete inputs: the parameter is one real \<open>p\<close>, an
  image is one real \<open>x\<close>, and the network answers the row \<open>[p * x, 0, \<dots>, 0]\<close>. The
  losses that arise are affine in \<open>p\<close>, so the difference quotient with step 1 is
  their exact derivative. The optimizer is momentum descent, its value a tuple of
  learning rate, decay, parameter and velocity. The generator counts its draws and
  answers the indices rotated by that count.
\<close>

type_synonym toy_optimizer = "real \<times> real \<times> real \<times> real"

definition toy_apply_gradient :: "toy_optimizer \<Rightarrow> real \<Rightarrow> toy_optimizer" where
  "toy_apply_gradient opt g =
     (case opt of (lr, beta, p, v) \<Rightarrow>
        (let v' = beta * v + g in (lr, beta, p - lr * v', v')))"

definition toy :: "(unit, real, real, toy_optimizer, nat) framework" where
  "toy =
     \<lparr>PRNGKey = (\<lambda>seed. ()),
      init_by_shape = (\<lambda>key. 0),
      model_apply = (\<lambda>p xs. map (\<lambda>x. [p * x, 0, 0, 0, 0, 0, 0, 0, 0, 0]) xs),
      grad = (\<lambda>f p. f (p + 1) - f p),
      momentum_create = (\<lambda>lr beta p. (lr, beta, p, 0)),
      target = (\<lambda>opt. fst (snd (snd opt))),
      apply_gradient = toy_apply_gradient,
      RandomState = (\<lambda>seed. nat seed),
      permutation = (\<lambda>g n. (rotate g [0..<n], Suc g))\<rparr>"

definition toy_flags :: flags where
  "toy_flags =
     \<lparr>flag_learning_rate = 1 / 10, flag_momentum = 9 / 10,
      flag_batch_size = 2, flag_num_epochs = 2\<rparr>"

definition toy_train_ds :: "real dataset" where
  "toy_train_ds = \<lparr>ds_image = [1, 2, 3, 4, 5], ds_label = [0, 0, 0, 1, 0]\<rparr>"

definition toy_test_ds :: "real dataset" where
  "toy_test_ds = \<lparr>ds_image = [1, 2], ds_label = [0, 1]\<rparr>"

section \<open>Properties\<close>

subsection \<open>The loss selects the label's column\<close>





subsection \<open>Reduction over the devices\<close>

lemma psum_const: "psum xs = replicate (length xs) (sum_list xs)"
  by (simp add: psum_def map_replicate_const)

lemma pmean_leaf_const: "pmean_leaf d xs = replicate (length xs) (sum_list xs / real d)"
  by (simp add: pmean_leaf_def psum_const)

lemma pmean_const:
  "pmean d tree = replicate (length tree)
     \<lparr>loss = sum_list (map loss tree) / real d, accuracy = sum_list (map accuracy tree) / real d\<rparr>"
  by (simp add: pmean_def pmean_leaf_const zip_replicate map_replicate_const)

text \<open>
  C6: for every metrics tree and device count \<open>d\<close>, \<open>pmean\<close> gives every device, for
  each leaf, the sum of the devices' values divided by \<open>d\<close>; when the tree has one value
  per device (\<open>d\<close> of them), the metrics that \<open>compute_metrics\<close> returns with
  \<open>sharded\<close> set are, on every device, the arithmetic mean of the devices' own metrics.
\<close>

theorem pmean_is_cross_device_mean:
  "pmean d tree =
     replicate (length tree)
       \<lparr>loss = sum_list (map loss tree) / real d,
        accuracy = sum_list (map accuracy tree) / real d\<rparr>
   \<and> (length logits = d \<and> length labels = d \<longrightarrow>
        compute_metrics_sharded d logits labels =
          replicate d
            \<lparr>loss = jnp_mean (map loss (map2 compute_metrics_local logits labels)),
             accuracy = jnp_mean (map accuracy (map2 compute_metrics_local logits labels))\<rparr>)"
  by (simp add: pmean_const compute_metrics_sharded_def jnp_mean_def)

theorem pmean_is_cross_device_mean_witness:
  "pmean 2 [\<lparr>loss = 1, accuracy = 1 / 2\<rparr>, \<lparr>loss = 3, accuracy = 1\<rparr>] =
     [\<lparr>loss = 2, accuracy = 3 / 4\<rparr>, \<lparr>loss = 2, accuracy = 3 / 4\<rparr>]
   \<and> compute_metrics_sharded 2
        [[[0, 0, -1, 0, 0, 0, 0, 0, 0, 0]], [[0, 0, 0, 0, -3, 0, 0, 0, 0, 0]]] [[2], [4]] =
      [\<lparr>loss = 2, accuracy = 0\<rparr>, \<lparr>loss = 2, accuracy = 0\<rparr>]"
  using pmean_is_cross_device_mean
    [of 2 "[\<lparr>loss = 1, accuracy = 1 / 2\<rparr>, \<lparr>loss = 3, accuracy = 1\<rparr>]"
        "[[[0, 0, -1, 0, 0, 0, 0, 0, 0, 0]], [[0, 0, 0, 0, -3, 0, 0, 0, 0, 0]]]" "[[2], [4]]"]
  by (simp add: numeral_2_eq_2 jnp_mean_def compute_metrics_local_def cross_entropy_loss_def
      onehot_def upt_rec)

subsection \<open>Reshaping into rows\<close>

lemma length_rows_of [simp]: "length (rows_of k w xs) = k"
  by (simp add: rows_of_def)













subsection \<open>The instance satisfies what the script relies on\<close>



subsection \<open>Sharding a batch\<close>



subsection \<open>The training step\<close>








subsection \<open>The epoch loop\<close>



















subsection \<open>The metrics of an epoch\<close>



subsection \<open>The log of a run\<close>







subsection \<open>Errors\<close>

lemma reshape_leading_Inl:
  "reshape_leading d xs = Inl err \<Longrightarrow> err = ValueError ''cannot reshape array''"
  by (auto simp: reshape_leading_def split: if_splits)

lemma take_rows_Inl: "take_rows v perm = Inl err \<Longrightarrow> err = IndexError"
  by (auto simp: take_rows_def split: if_splits)

lemma make_batch_Inl:
  assumes "make_batch d train_ds perm = Inl err"
  shows "err \<noteq> ValueError batch_size_msg"
proof -
  from assms have "err = IndexError \<or> err = ValueError ''cannot reshape array''"
    by (auto simp: make_batch_def select_batch_def shard_def split: sum.splits
        dest: reshape_leading_Inl take_rows_Inl)
  then show ?thesis by (auto simp: batch_size_msg_def)
qed

lemma train_step_Inl:
  assumes "train_step F d opts batch = Inl err"
  shows "err \<noteq> ValueError batch_size_msg"
  using assms by (auto simp: train_step_def Let_def batch_size_msg_def split: if_splits)

lemma epoch_loop_Inl:
  assumes "epoch_loop F d train_ds perms opts acc = Inl err"
  shows "err \<noteq> ValueError batch_size_msg"
  using assms
proof (induction perms arbitrary: opts acc)
  case Nil
  then show ?case by simp
next
  case (Cons perm perms)
  show ?case
  proof (cases "make_batch d train_ds perm")
    case (Inl e1)
    with Cons.prems have "err = e1" by simp
    with Inl show ?thesis using make_batch_Inl by blast
  next
    case (Inr batch)
    show ?thesis
    proof (cases "train_step F d opts batch")
      case (Inl e2)
      with Inr Cons.prems have "err = e2" by simp
      with Inl show ?thesis using train_step_Inl by blast
    next
      case inr: (Inr r)
      obtain opts1 ms where r: "r = (opts1, ms)" by (cases r)
      from Cons.prems Inr inr r
      have "epoch_loop F d train_ds perms opts1 (acc @ [ms]) = Inl err" by simp
      then show ?thesis by (rule Cons.IH)
    qed
  qed
qed

lemma reshape2_Inl:
  assumes "reshape2 r c xs = Inl err"
  shows "err \<noteq> ValueError batch_size_msg"
proof -
  from assms have "err = ValueError ''cannot reshape array''
      \<or> err = ValueError ''can only specify one unknown dimension''"
    unfolding reshape2_def by (simp split: if_splits)
  then show ?thesis by (auto simp: batch_size_msg_def)
qed

lemma epoch_perms_Inl:
  assumes "epoch_perms F train_ds bs g = Inl err"
  shows "err \<noteq> ValueError batch_size_msg"
proof (cases "bs = 0")
  case True
  with assms have "err = ZeroDivisionError" by (simp add: epoch_perms_def)
  then show ?thesis by simp
next
  case False
  let ?n = "length (ds_image train_ds)"
  have "reshape2 (int ?n div bs) bs
          (take (nat (int ?n div bs * bs)) (fst (permutation F g ?n))) = Inl err"
    using assms False
    by (simp add: epoch_perms_def Let_def split_beta split: sum.splits)
  then show ?thesis by (rule reshape2_Inl)
qed

lemma epoch_metrics_Inl: "epoch_metrics steps = Inl err \<Longrightarrow> err = IndexError"
  by (auto simp: epoch_metrics_def split: list.splits)

lemma train_epoch_past_guard:
  assumes "0 < d" "\<not> 0 < bs mod int d"
  shows "train_epoch F d opts train_ds bs e w =
     (case epoch_perms F train_ds bs (fst w) of
        Inl err \<Rightarrow> Inl err
      | Inr (perms, rng') \<Rightarrow>
          (case epoch_loop F d train_ds perms opts [] of
             Inl err \<Rightarrow> Inl err
           | Inr (optimizer', batch_metrics) \<Rightarrow>
               (case epoch_metrics batch_metrics of
                  Inl err \<Rightarrow> Inl err
                | Inr em \<Rightarrow>
                    Inr ((optimizer', em),
                         (rng', snd w @ [TrainLog e (loss em) (accuracy em * 100)])))))"
proof -
  have a: "(d = 0) = False" using assms(1) by simp
  have b: "(0 < bs mod int d) = False" using assms(2) by (rule eq_False [THEN iffD2])
  show ?thesis unfolding train_epoch_def a b if_False by (rule refl)
qed

lemma train_epoch_Inl_past_guard:
  assumes d: "0 < d" and nb: "\<not> 0 < bs mod int d"
    and te: "train_epoch F d opts train_ds bs e w = Inl err"
  shows "err \<noteq> ValueError batch_size_msg"
proof (cases "epoch_perms F train_ds bs (fst w)")
  case (Inl e1)
  have "e1 = err"
    using te unfolding train_epoch_past_guard [OF d nb] Inl sum.case by (rule Inl_inject)
  then have "epoch_perms F train_ds bs (fst w) = Inl err"
    using Inl by (rule subst)
  then show ?thesis by (rule epoch_perms_Inl)
next
  case (Inr r)
  obtain perms g' where r: "r = (perms, g')" by (cases r)
  note ep = Inr [unfolded r]
  show ?thesis
  proof (cases "epoch_loop F d train_ds perms opts []")
    case (Inl e2)
    have "e2 = err"
      using te unfolding train_epoch_past_guard [OF d nb] ep Inl sum.case prod.case
      by (rule Inl_inject)
    then have "epoch_loop F d train_ds perms opts [] = Inl err"
      using Inl by (rule subst)
    then show ?thesis by (rule epoch_loop_Inl)
  next
    case inr: (Inr r2)
    obtain opts' steps where r2: "r2 = (opts', steps)" by (cases r2)
    note el = inr [unfolded r2]
    show ?thesis
    proof (cases "epoch_metrics steps")
      case (Inl e3)
      have "e3 = err"
        using te unfolding train_epoch_past_guard [OF d nb] ep el Inl sum.case prod.case
        by (rule Inl_inject)
      then have "epoch_metrics steps = Inl err"
        using Inl by (rule subst)
      then have "err = IndexError" by (rule epoch_metrics_Inl)
      then show ?thesis by simp
    next
      case em: (Inr em)
      show ?thesis
        using te unfolding train_epoch_past_guard [OF d nb] ep el em sum.case prod.case
        by simp
    qed
  qed
qed

lemma train_epoch_batch_size_error_iff:
  "train_epoch F d opts train_ds bs e w = Inl (ValueError batch_size_msg)
     \<longleftrightarrow> 0 < d \<and> 0 < bs mod int d"
proof
  assume te: "train_epoch F d opts train_ds bs e w = Inl (ValueError batch_size_msg)"
  show "0 < d \<and> 0 < bs mod int d"
  proof (rule ccontr)
    assume n: "\<not> (0 < d \<and> 0 < bs mod int d)"
    show False
    proof (cases "d = 0")
      case True
      then have a: "(d = 0) = True" by simp
      from te show False unfolding train_epoch_def a if_True by simp
    next
      case False
      then have d: "0 < d" by simp
      with n have nb: "\<not> 0 < bs mod int d" by simp
      from train_epoch_Inl_past_guard [OF d nb te] show False by simp
    qed
  qed
next
  assume "0 < d \<and> 0 < bs mod int d"
  then have a: "(d = 0) = False" and b: "(0 < bs mod int d) = True" by simp_all
  show "train_epoch F d opts train_ds bs e w = Inl (ValueError batch_size_msg)"
    unfolding train_epoch_def a b if_False if_True by (rule refl)
qed

lemma train_loop_propagates:
  assumes "train_epoch F d opts train_ds bs e w = Inl err"
  shows "train_loop F d train_ds test_ds bs (e # es) opts w = (Inl err, snd w)"
  using assms by simp

text \<open>
  C3, as amended: the script does raise an error of its own. \<open>train_epoch\<close> raises
  ValueError with the message "Batch size must be divisible by the number of devices"
  exactly when a device exists and \<open>batch_size % device_count\<close> is positive; and nothing
  handles an error: one that \<open>train_epoch\<close> raises in any epoch ends the run with that
  error and the log as it stood.
\<close>

theorem train_epoch_raises_on_indivisible_batch_size:
  "(train_epoch F d opts train_ds bs e w = Inl (ValueError batch_size_msg)
      \<longleftrightarrow> 0 < d \<and> 0 < bs mod int d)
   \<and> (train_epoch F d opts train_ds bs e w = Inl err \<longrightarrow>
        train_loop F d train_ds test_ds bs (e # es) opts w = (Inl err, snd w))"
  using train_epoch_batch_size_error_iff [of F d opts train_ds bs e w]
    train_loop_propagates [of F d opts train_ds bs e w err test_ds es]
  by (intro conjI impI)

theorem train_epoch_raises_on_indivisible_batch_size_witness:
  "train_epoch toy 2 [(1 / 10, 9 / 10, 0, 0), (1 / 10, 9 / 10, 0, 0)] toy_train_ds 3 1 (0, [])
     = Inl (ValueError batch_size_msg)
   \<and> train_loop toy 2 toy_train_ds toy_test_ds 3 [1, 2]
       [(1 / 10, 9 / 10, 0, 0), (1 / 10, 9 / 10, 0, 0)] (0, [])
     = (Inl (ValueError batch_size_msg), [])"
proof -
  let ?opts = "[(1 / 10, 9 / 10, 0, 0), (1 / 10, 9 / 10, 0, 0)] :: toy_optimizer list"
  note T = train_epoch_raises_on_indivisible_batch_size
    [of toy 2 ?opts toy_train_ds 3 1 "(0, [])" "ValueError batch_size_msg" toy_test_ds "[2]"]
  have g: "0 < (2 :: nat) \<and> 0 < (3 :: int) mod int 2" by simp
  have te: "train_epoch toy 2 ?opts toy_train_ds 3 1 (0, []) = Inl (ValueError batch_size_msg)"
    using T [THEN conjunct1, THEN iffD2, OF g] .
  have "train_loop toy 2 toy_train_ds toy_test_ds 3 [1, 2] ?opts (0, [])
     = (Inl (ValueError batch_size_msg), snd (0 :: nat, [] :: log_entry list))"
    using T [THEN conjunct2, THEN mp, OF te] .
  then have "train_loop toy 2 toy_train_ds toy_test_ds 3 [1, 2] ?opts (0, [])
     = (Inl (ValueError batch_size_msg), [])"
    unfolding snd_conv .
  with te show ?thesis by (rule conjI)
qed

theorem train_raises_value_error_counterexample:
  "train toy 2 (toy_flags\<lparr>flag_batch_size := 3\<rparr>) toy_train_ds toy_test_ds
     = (Inl (ValueError ''Batch size must be divisible by the number of devices''), [])"
  by (simp add: train_def toy_flags_def upto.simps train_epoch_def batch_size_msg_def)

subsection \<open>The replicas of the optimizer\<close>


subsection \<open>Running the file\<close>

text \<open>
  C1, on the code: the file does not compile, because line 29 is an \<open>import\<close> without
  a module; the names \<open>jax\<close> and \<open>functools\<close>, which the file loads, are bound nowhere.
  Were line 29 left out, the flag definition of line 50 would raise NameError for \<open>jax\<close>;
  were it \<open>import jax\<close>, the decorator of line 132 would raise NameError for
  \<open>functools\<close>.
\<close>

theorem train_py_does_not_run:
  "run_module python_builtins train_py = Inl (SyntaxError 29)
   \<and> unresolved python_builtins train_py = [''functools'', ''jax'']
   \<and> exec_module python_builtins (imports_before @ rest_of_file) = Inl (NameError ''jax'' 50)
   \<and> exec_module python_builtins (imports_before @ [Import 29 [''jax'']] @ rest_of_file)
       = Inl (NameError ''functools'' 132)"
proof -
  have 1: "run_module python_builtins train_py = Inl (SyntaxError 29)"
    by code_simp
  have 2: "unresolved python_builtins train_py = [''functools'', ''jax'']"
    by code_simp
  have 3: "exec_module python_builtins (imports_before @ rest_of_file)
             = Inl (NameError ''jax'' 50)"
    by code_simp
  have 4: "exec_module python_builtins (imports_before @ [Import 29 [''jax'']] @ rest_of_file)
             = Inl (NameError ''functools'' 132)"
    by code_simp
  show ?thesis by (intro conjI 1 2 3 4)
qed

end
